theory Spec2Isabelle
  imports Complex_Main "HOL-Library.Sublist" "HOL-Library.Multiset"
begin

section \<open>The total-byte-weight audit of Lighthouse\<close>

text \<open>
  The source is \<^verbatim>\<open>lighthouse-core/audits/byte-efficiency/total-byte-weight.js\<close>: the
  class \<^verbatim>\<open>TotalByteWeight\<close> with the static members \<^verbatim>\<open>defaultOptions\<close>,
  \<^verbatim>\<open>hasExceededJSBundleSize\<close> and \<^verbatim>\<open>audit\<close>.

  JavaScript numbers are modelled as follows. A transfer size is an \<open>int\<close>: the byte counts
  are integers, and sums and differences of integers are exact in a double below \<open>2 ^ 53\<close>,
  far above any page weight. The two score options and the throughput are only handed on to
  other modules by this file, so their types do not matter to the audit itself; the options
  are \<open>real\<close>.
\<close>

subsection \<open>Data model\<close>

text \<open>
  Modelled from the spec: the resource types of \<^verbatim>\<open>lib/web-inspector\<close>
  (\<^verbatim>\<open>WebInspector.resourceTypes\<close>), which the source only compares with
  \<^verbatim>\<open>===\<close> against \<^verbatim>\<open>WebInspector.resourceTypes.Script\<close>. The spec lists
  "script, image, stylesheet, etc."; every other tag is \<open>OtherType\<close> with its name.
\<close>

datatype ResourceType = Script | Image | Stylesheet | OtherType string

text \<open>
  The fields of a network record that the audit reads. \<open>resourceType\<close> is the field
  \<^verbatim>\<open>_resourceType\<close> of the source.
\<close>

record NetworkRequest =
  url :: string
  scheme :: string
  finished :: bool
  transferSize :: int
  resourceType :: ResourceType

text \<open>The object literal \<^verbatim>\<open>result\<close> built for each included record.\<close>

record 'ms result =
  result_url :: string
  totalBytes :: int
  totalMs :: 'ms
  flagged :: bool

text \<open>\<^verbatim>\<open>context.options\<close>, of which the audit reads two fields.\<close>

record options =
  scorePODR :: real
  scoreMedian :: real

text \<open>A column heading of the table; \<open>text_\<close> is the key \<^verbatim>\<open>text\<close>.\<close>

record heading =
  key :: string
  itemType :: string
  displayUnit :: "string option"
  granularity :: "int option"
  text_ :: string

text \<open>The object \<^verbatim>\<open>extendedInfo.value\<close> and the object that \<^verbatim>\<open>audit\<close> returns.\<close>

record 'ms extendedInfo_value =
  results :: "'ms result list"
  totalCompletedRequests :: nat

record ('ms, 'score, 'details) AuditResult =
  score :: 'score
  rawValue :: int
  displayValue :: string
  extendedInfo :: "'ms extendedInfo_value"
  details :: 'details

text \<open>
  The functions of other modules that \<^verbatim>\<open>audit\<close> calls are not part of this file:
  \<^verbatim>\<open>ByteEfficiencyAudit.bytesToMs\<close>, \<^verbatim>\<open>ByteEfficiencyAudit.computeLogNormalScore\<close>,
  \<^verbatim>\<open>ByteEfficiencyAudit.makeTableDetails\<close> and \<^verbatim>\<open>Util.formatBytesToKB\<close>. The
  audit takes them as a parameter, a record of functions, and is polymorphic in the types of
  the throughput, of a transfer time, of a score and of the table details. A collaborator
  is a function here: one that throws is outside this model.
\<close>

record ('thr, 'ms, 'score, 'details) collaborators =
  bytesToMs :: "int \<Rightarrow> 'thr \<Rightarrow> 'ms"
  computeLogNormalScore :: "int \<Rightarrow> real \<Rightarrow> real \<Rightarrow> 'score"
  makeTableDetails :: "heading list \<Rightarrow> 'ms result list \<Rightarrow> 'details"
  formatBytesToKB :: "int \<Rightarrow> int \<Rightarrow> string"

text \<open>
  The variables \<^verbatim>\<open>totalBytes\<close> and \<^verbatim>\<open>results\<close> that the callback of
  \<^verbatim>\<open>forEach\<close> updates. They are declared with \<^verbatim>\<open>let\<close> inside the function, and
  the model threads them explicitly: \<open>audit\<close> receives whatever values they hold,
  initialises them as the source does, and returns them with its result.
\<close>

record 'ms locals =
  totalBytes_var :: int
  results_var :: "'ms result list"

subsection \<open>Constants and the size check\<close>

definition BUNDLE_SIZE_THRESHOLD :: int where
  "BUNDLE_SIZE_THRESHOLD = 170 * 1024"

definition defaultOptions :: options where
  "defaultOptions = \<lparr>scorePODR = 2500 * 1024, scoreMedian = 4000 * 1024\<rparr>"

definition hasExceededJSBundleSize :: "NetworkRequest \<Rightarrow> bool" where
  "hasExceededJSBundleSize record \<longleftrightarrow>
     resourceType record = Script \<and> transferSize record > BUNDLE_SIZE_THRESHOLD"

subsection \<open>Array built-ins\<close>

text \<open>\<^verbatim>\<open>Array.prototype.forEach\<close>, with the variables the callback updates threaded.\<close>

fun Array_forEach :: "('a \<Rightarrow> 's \<Rightarrow> 's) \<Rightarrow> 'a list \<Rightarrow> 's \<Rightarrow> 's" where
  "Array_forEach f [] s = s"
| "Array_forEach f (x # xs) s = Array_forEach f xs (f x s)"

text \<open>
  \<^verbatim>\<open>Array.prototype.sort(comparefn)\<close>: \<open>a\<close> comes before \<open>b\<close> when
  \<open>comparefn a b < 0\<close>, after it when \<open>comparefn a b > 0\<close>, and elements that compare
  equal keep their order (ECMAScript 2019 and later require the sort to be stable). The model
  is the stable insertion sort: the elements are inserted from the last to the first, each
  one in front of the first element it does not come after. For a comparator that is a
  difference of keys, as the one of the audit is, the result of a stable sort is determined
  by the input, so the algorithm the engine uses makes no difference.
\<close>

fun insert_sorted :: "('a \<Rightarrow> 'a \<Rightarrow> int) \<Rightarrow> 'a \<Rightarrow> 'a list \<Rightarrow> 'a list" where
  "insert_sorted comparefn x [] = [x]"
| "insert_sorted comparefn x (y # ys) =
     (if comparefn x y \<le> 0 then x # y # ys else y # insert_sorted comparefn x ys)"

definition Array_sort :: "('a \<Rightarrow> 'a \<Rightarrow> int) \<Rightarrow> 'a list \<Rightarrow> 'a list" where
  "Array_sort comparefn xs = foldr (insert_sorted comparefn) xs []"

text \<open>\<^verbatim>\<open>Array.prototype.slice(0, n)\<close> for a non-negative \<open>n\<close>.\<close>

definition Array_slice0 :: "nat \<Rightarrow> 'a list \<Rightarrow> 'a list" where
  "Array_slice0 n xs = take n xs"

subsection \<open>The audit\<close>

text \<open>The comparator \<^verbatim>\<open>(itemA, itemB) => itemB.totalBytes - itemA.totalBytes\<close>.\<close>

definition byBytesDescending :: "'ms result \<Rightarrow> 'ms result \<Rightarrow> int" where
  "byBytesDescending itemA itemB = totalBytes itemB - totalBytes itemA"

text \<open>The object literal of lines 75 to 80.\<close>

definition make_result ::
  "('thr, 'ms, 'score, 'details) collaborators \<Rightarrow> 'thr \<Rightarrow> NetworkRequest \<Rightarrow> 'ms result" where
  "make_result B networkThroughput record =
     \<lparr>result_url = url record,
      totalBytes = transferSize record,
      totalMs = bytesToMs B (transferSize record) networkThroughput,
      flagged = hasExceededJSBundleSize record\<rparr>"

text \<open>The callback of \<^verbatim>\<open>networkRecords.forEach\<close>, lines 70 to 84.\<close>

definition forEach_callback ::
  "('thr, 'ms, 'score, 'details) collaborators \<Rightarrow> 'thr \<Rightarrow> NetworkRequest \<Rightarrow>
   'ms locals \<Rightarrow> 'ms locals" where
  "forEach_callback B networkThroughput record s =
     (if scheme record = ''data'' \<or> \<not> finished record then s
      else
        let result = make_result B networkThroughput record
        in s\<lparr>totalBytes_var := totalBytes_var s + totalBytes result,
             results_var := results_var s @ [result]\<rparr>)"

definition headings :: "heading list" where
  "headings =
     [\<lparr>key = ''url'', itemType = ''url'', displayUnit = None, granularity = None,
       text_ = ''URL''\<rparr>,
      \<lparr>key = ''totalBytes'', itemType = ''bytes'', displayUnit = Some ''kb'',
       granularity = Some 1, text_ = ''Total Size''\<rparr>,
      \<lparr>key = ''totalMs'', itemType = ''ms'', displayUnit = None, granularity = None,
       text_ = ''Transfer Time''\<rparr>]"

text \<open>
  The function passed to \<^verbatim>\<open>then\<close> in \<^verbatim>\<open>audit\<close>, lines 67 to 121, applied to the
  network records and the throughput that the two requests resolve to. The last argument
  holds the values of the two local variables on entry; the second component of the result
  holds them on exit.
\<close>

definition audit ::
  "('thr, 'ms, 'score, 'details) collaborators \<Rightarrow> NetworkRequest list \<Rightarrow> 'thr \<Rightarrow> options \<Rightarrow>
   'ms locals \<Rightarrow> ('ms, 'score, 'details) AuditResult \<times> 'ms locals" where
  "audit B networkRecords networkThroughput context_options s0 =
     (let s1 = s0\<lparr>totalBytes_var := 0, results_var := []\<rparr>;
          s2 = Array_forEach (forEach_callback B networkThroughput) networkRecords s1;
          completed = length (results_var s2);
          s3 = s2\<lparr>results_var :=
                   Array_slice0 10 (Array_sort byBytesDescending (results_var s2))\<rparr>;
          score_value = computeLogNormalScore B (totalBytes_var s3)
                          (scorePODR context_options) (scoreMedian context_options);
          tableDetails = makeTableDetails B headings (results_var s3)
      in (\<lparr>score = score_value,
           rawValue = totalBytes_var s3,
           displayValue = ''Total size was '' @ formatBytesToKB B (totalBytes_var s3) 1,
           extendedInfo =
             \<lparr>results = results_var s3, totalCompletedRequests = completed\<rparr>,
           details = tableDetails\<rparr>,
          s3))"

subsection \<open>The words of the specification\<close>

text \<open>
  The filter of the specification: a record is included when its scheme is not the
  embedded-data scheme and it has finished.
\<close>

definition passes_filter :: "NetworkRequest \<Rightarrow> bool" where
  "passes_filter record \<longleftrightarrow> scheme record \<noteq> ''data'' \<and> finished record"

text \<open>
  Modelled from the spec: \<^verbatim>\<open>ByteEfficiencyAudit.bytesToMs\<close>, of
  \<^verbatim>\<open>byte-efficiency-audit.js\<close>, which is not among the sources. The specification
  gives the estimated transfer time as the bytes divided by the throughput (in bytes per
  millisecond), and the placeholder 0 when the throughput is zero or unavailable. An
  unavailable throughput is \<open>None\<close>.
\<close>

definition spec_bytesToMs :: "int \<Rightarrow> real option \<Rightarrow> real" where
  "spec_bytesToMs bytes networkThroughput =
     (case networkThroughput of
        None \<Rightarrow> 0
      | Some t \<Rightarrow> if t = 0 then 0 else real_of_int bytes / t)"

text \<open>
  Modelled from the spec: \<^verbatim>\<open>ByteEfficiencyAudit.makeTableDetails\<close>, of the same
  missing file: "a table descriptor (column headings) paired with the rows".
\<close>

definition spec_makeTableDetails ::
  "heading list \<Rightarrow> 'ms result list \<Rightarrow> heading list \<times> 'ms result list" where
  "spec_makeTableDetails hs rows = (hs, rows)"

subsection \<open>Sample inputs\<close>

text \<open>
  Concrete collaborators and record lists at which the theorems below are instantiated.
  The score and the formatted size of the sample are stand-ins: the score is the triple of
  the arguments of \<^verbatim>\<open>computeLogNormalScore\<close>, the formatted size a fixed string.
\<close>

definition sample_collaborators ::
  "(real option, real, int \<times> real \<times> real, heading list \<times> real result list) collaborators" where
  "sample_collaborators =
     \<lparr>bytesToMs = spec_bytesToMs,
      computeLogNormalScore = (\<lambda>measured podr median. (measured, podr, median)),
      makeTableDetails = spec_makeTableDetails,
      formatBytesToKB = (\<lambda>bytes granularity. ''(size)'')\<rparr>"

definition http_record :: "string \<Rightarrow> int \<Rightarrow> ResourceType \<Rightarrow> NetworkRequest" where
  "http_record u n t =
     \<lparr>url = u, scheme = ''http'', finished = True, transferSize = n, resourceType = t\<rparr>"

text \<open>Values of the two local variables on entry that are not the initial ones.\<close>

definition stale_locals :: "real locals" where
  "stale_locals = \<lparr>totalBytes_var = 7, results_var = []\<rparr>"

definition fifteen_equal :: "NetworkRequest list" where
  "fifteen_equal =
     [http_record ''r01'' 1000 Image, http_record ''r02'' 1000 Script,
      http_record ''r03'' 1000 Image, http_record ''r04'' 1000 Image,
      http_record ''r05'' 1000 Stylesheet, http_record ''r06'' 1000 Image,
      http_record ''r07'' 1000 Image, http_record ''r08'' 1000 Image,
      http_record ''r09'' 1000 Image, http_record ''r10'' 1000 Image,
      http_record ''r11'' 1000 Image, http_record ''r12'' 1000 Image,
      http_record ''r13'' 1000 Image, http_record ''r14'' 1000 Image,
      http_record ''r15'' 1000 Image]"

definition ten_large :: "NetworkRequest list" where
  "ten_large =
     [http_record ''t01'' 100 Image, http_record ''t02'' 100 Image,
      http_record ''t03'' 100 Image, http_record ''t04'' 100 Image,
      http_record ''t05'' 100 Image, http_record ''t06'' 100 Image,
      http_record ''t07'' 100 Image, http_record ''t08'' 100 Image,
      http_record ''t09'' 100 Image, http_record ''t10'' 100 Image]"

definition mixed_records :: "NetworkRequest list" where
  "mixed_records =
     [http_record ''small.css'' 1 Stylesheet,
      \<lparr>url = ''b.png'', scheme = ''data'', finished = True, transferSize = 5000,
       resourceType = Image\<rparr>,
      \<lparr>url = ''c.js'', scheme = ''http'', finished = False, transferSize = 999999,
       resourceType = Script\<rparr>] @
     ten_large @ [http_record ''tail.js'' 3 Script]"

definition other_records :: "NetworkRequest list" where
  "other_records =
     ten_large @ [http_record ''p.css'' 2 Stylesheet, http_record ''q.js'' 2 Script]"

section \<open>Properties\<close>

subsection \<open>The loop over the records\<close>

lemma forEach_totalBytes:
  "totalBytes_var (Array_forEach (forEach_callback B thr) recs s) =
     totalBytes_var s +
     sum_list (map transferSize (filter (\<lambda>r. scheme r \<noteq> ''data'' \<and> finished r) recs))"
  by (induction recs arbitrary: s) (simp_all add: forEach_callback_def make_result_def Let_def)

lemma forEach_results:
  "results_var (Array_forEach (forEach_callback B thr) recs s) =
     results_var s @
     map (make_result B thr) (filter (\<lambda>r. scheme r \<noteq> ''data'' \<and> finished r) recs)"
  by (induction recs arbitrary: s) (simp_all add: forEach_callback_def Let_def)

lemma forEach_filter_results:
  "results_var (Array_forEach (forEach_callback B thr) recs s) =
     results_var s @ map (make_result B thr) (filter passes_filter recs)"
  unfolding passes_filter_def by (rule forEach_results)

lemma forEach_filter_totalBytes:
  "totalBytes_var (Array_forEach (forEach_callback B thr) recs s) =
     totalBytes_var s + sum_list (map transferSize (filter passes_filter recs))"
  unfolding passes_filter_def by (rule forEach_totalBytes)

subsection \<open>The sort\<close>

text \<open>
  With the comparator of the audit, \<open>Array_sort\<close> is the stable sort of the library on the
  key \<open>- totalBytes\<close>.
\<close>

lemma insert_sorted_insort_key:
  "insert_sorted byBytesDescending x ys = insort_key (\<lambda>r. - totalBytes r) x ys"
  by (induction ys) (simp_all add: byBytesDescending_def)

lemma Array_sort_sort_key:
  "Array_sort byBytesDescending xs = sort_key (\<lambda>r. - totalBytes r) xs"
  by (induction xs) (simp_all add: Array_sort_def sort_key_def insert_sorted_insort_key)

lemma prefix_filter_take: "prefix (filter P (take n xs)) (filter P xs)"
proof -
  have "filter P xs = filter P (take n xs) @ filter P (drop n xs)"
    by (metis append_take_drop_id filter_append)
  then show ?thesis by (simp add: prefix_def)
qed

lemma top_largest:
  fixes f :: "'a \<Rightarrow> int"
  assumes "sorted_wrt (\<lambda>a b. f b \<le> f a) S"
  shows "\<forall>a\<in>set (take n S). \<forall>b\<in>set (drop n S). f b \<le> f a"
proof -
  have "sorted_wrt (\<lambda>a b. f b \<le> f a) (take n S @ drop n S)" using assms by simp
  then show ?thesis unfolding sorted_wrt_append by blast
qed

lemma sorted_desc_Array_sort:
  "sorted_wrt (\<lambda>a b. totalBytes b \<le> totalBytes a) (Array_sort byBytesDescending xs)"
proof -
  have "sorted (map (\<lambda>r. - totalBytes r) (sort_key (\<lambda>r. - totalBytes r) xs))"
    by (rule sorted_sort_key)
  then show ?thesis by (simp add: sorted_map Array_sort_sort_key)
qed

lemma stable_Array_sort:
  "filter (\<lambda>r. totalBytes r = k) (Array_sort byBytesDescending xs) =
   filter (\<lambda>r. totalBytes r = k) xs"
proof -
  have "filter (\<lambda>r. - totalBytes r = - k) (sort_key (\<lambda>r. - totalBytes r) xs) =
        filter (\<lambda>r. - totalBytes r = - k) xs"
    by (rule sort_key_stable)
  then show ?thesis by (simp add: Array_sort_sort_key)
qed

lemma mset_Array_sort: "mset (Array_sort byBytesDescending xs) = mset xs"
  by (simp add: Array_sort_sort_key)

lemma length_Array_sort: "length (Array_sort byBytesDescending xs) = length xs"
  by (simp add: Array_sort_sort_key)

lemma Array_sort_equal_sizes:
  assumes "\<forall>r\<in>set xs. totalBytes r = c"
  shows "Array_sort byBytesDescending xs = xs"
proof -
  have "map (\<lambda>r. - totalBytes r) xs = replicate (length xs) (- c)"
    using assms by (simp add: map_replicate_const [symmetric] cong: map_cong)
  then have "sorted (map (\<lambda>r. - totalBytes r) xs)" by simp
  then show ?thesis by (simp add: Array_sort_sort_key sort_key_id_if_sorted)
qed

subsection \<open>The fields of the result\<close>

lemma audit_rawValue:
  "rawValue (fst (audit B recs thr opts s)) =
     sum_list (map transferSize (filter passes_filter recs))"
  by (simp add: audit_def Let_def forEach_filter_totalBytes)

lemma audit_completed:
  "totalCompletedRequests (extendedInfo (fst (audit B recs thr opts s))) =
     length (filter passes_filter recs)"
  by (simp add: audit_def Let_def forEach_filter_results)

lemma audit_results:
  "results (extendedInfo (fst (audit B recs thr opts s))) =
     take 10 (Array_sort byBytesDescending
       (map (make_result B thr) (filter passes_filter recs)))"
  by (simp add: audit_def Let_def forEach_filter_results Array_slice0_def)

lemma audit_score:
  "score (fst (audit B recs thr opts s)) =
     computeLogNormalScore B (sum_list (map transferSize (filter passes_filter recs)))
       (scorePODR opts) (scoreMedian opts)"
  by (simp add: audit_def Let_def forEach_filter_totalBytes)

lemma audit_details:
  "details (fst (audit B recs thr opts s)) =
     makeTableDetails B headings (results (extendedInfo (fst (audit B recs thr opts s))))"
  by (simp add: audit_def Let_def)

lemma audit_displayValue:
  "displayValue (fst (audit B recs thr opts s)) =
     ''Total size was '' @ formatBytesToKB B (rawValue (fst (audit B recs thr opts s))) 1"
  by (simp add: audit_def Let_def)

lemma audit_locals:
  "snd (audit B recs thr opts s) =
     s\<lparr>totalBytes_var := rawValue (fst (audit B recs thr opts s)),
       results_var := results (extendedInfo (fst (audit B recs thr opts s)))\<rparr>"
  by (simp add: audit_def Let_def)

lemma audit_value:
  "fst (audit B recs thr opts s) =
     \<lparr>score = computeLogNormalScore B
        (sum_list (map transferSize (filter passes_filter recs)))
        (scorePODR opts) (scoreMedian opts),
      rawValue = sum_list (map transferSize (filter passes_filter recs)),
      displayValue = ''Total size was '' @
        formatBytesToKB B (sum_list (map transferSize (filter passes_filter recs))) 1,
      extendedInfo =
        \<lparr>results = take 10 (Array_sort byBytesDescending
           (map (make_result B thr) (filter passes_filter recs))),
         totalCompletedRequests = length (filter passes_filter recs)\<rparr>,
      details = makeTableDetails B headings
        (take 10 (Array_sort byBytesDescending
           (map (make_result B thr) (filter passes_filter recs))))\<rparr>"
  by (simp add: audit_def Let_def forEach_filter_results forEach_filter_totalBytes
      Array_slice0_def)

lemma audit_fresh_locals:
  "fst (audit B recs thr opts s) = fst (audit B recs thr opts s')"
  by (simp only: audit_value)

lemma audit_assembled:
  "fst (audit B recs thr opts s) =
     \<lparr>score = computeLogNormalScore B (rawValue (fst (audit B recs thr opts s)))
        (scorePODR opts) (scoreMedian opts),
      rawValue = rawValue (fst (audit B recs thr opts s)),
      displayValue = ''Total size was '' @
        formatBytesToKB B (rawValue (fst (audit B recs thr opts s))) 1,
      extendedInfo =
        \<lparr>results = results (extendedInfo (fst (audit B recs thr opts s))),
         totalCompletedRequests =
           totalCompletedRequests (extendedInfo (fst (audit B recs thr opts s)))\<rparr>,
      details = makeTableDetails B headings
        (results (extendedInfo (fst (audit B recs thr opts s))))\<rparr>"
  by (simp add: audit_def Let_def)

text \<open>Replacing the throughput changes the transfer times of the results and nothing else.\<close>

lemma insert_sorted_map:
  assumes "\<And>a b. comparefn' (g a) (g b) = comparefn a b"
  shows "map g (insert_sorted comparefn x ys) = insert_sorted comparefn' (g x) (map g ys)"
  by (induction ys) (simp_all add: assms)

lemma Array_sort_map:
  assumes "\<And>a b. comparefn' (g a) (g b) = comparefn a b"
  shows "map g (Array_sort comparefn xs) = Array_sort comparefn' (map g xs)"
  by (induction xs)
    (simp_all add: Array_sort_def insert_sorted_map [of comparefn' g comparefn] assms)

lemma results_other_throughput:
  "results (extendedInfo (fst (audit B recs thr2 opts s))) =
     map (\<lambda>r. r\<lparr>totalMs := bytesToMs B (totalBytes r) thr2\<rparr>)
       (results (extendedInfo (fst (audit B recs thr1 opts s))))"
proof -
  let ?g = "\<lambda>r. r\<lparr>totalMs := bytesToMs B (totalBytes r) thr2\<rparr>"
  let ?L = "filter passes_filter recs"
  have cmp: "byBytesDescending (?g a) (?g b) = byBytesDescending a b" for a b
    by (simp add: byBytesDescending_def)
  have m: "map ?g (map (make_result B thr1) ?L) = map (make_result B thr2) ?L"
    by (simp add: make_result_def)
  have "map ?g (Array_sort byBytesDescending (map (make_result B thr1) ?L)) =
      Array_sort byBytesDescending (map ?g (map (make_result B thr1) ?L))"
    by (rule Array_sort_map) (rule cmp)
  then have "map ?g (Array_sort byBytesDescending (map (make_result B thr1) ?L)) =
      Array_sort byBytesDescending (map (make_result B thr2) ?L)"
    by (simp only: m)
  then have "take 10 (Array_sort byBytesDescending (map (make_result B thr2) ?L)) =
      map ?g (take 10 (Array_sort byBytesDescending (map (make_result B thr1) ?L)))"
    by (simp only: take_map [symmetric])
  then show ?thesis by (simp only: audit_results)
qed

lemmas sample_defs = fifteen_equal_def ten_large_def mixed_records_def http_record_def
  passes_filter_def make_result_def sample_collaborators_def spec_bytesToMs_def
  hasExceededJSBundleSize_def BUNDLE_SIZE_THRESHOLD_def other_records_def

section \<open>The claims\<close>

text \<open>
  Claim C1. For every list of network records, \<open>rawValue\<close> is the sum of
  \<open>transferSize\<close> over exactly the records whose scheme is not \<open>data\<close> and that have
  finished: the sum over all of them (equally, the sum of \<open>totalBytes\<close> over all the results
  built), not only over the ten that are shown.
\<close>

theorem rawValue_sums_all_included:
  "rawValue (fst (audit B recs thr opts s)) =
     sum_list (map transferSize (filter passes_filter recs)) \<and>
   rawValue (fst (audit B recs thr opts s)) =
     sum_list (map totalBytes (map (make_result B thr) (filter passes_filter recs)))"
proof -
  have "map totalBytes (map (make_result B thr) xs) = map transferSize xs" for xs
    by (simp add: make_result_def comp_def)
  then show ?thesis by (simp only: audit_rawValue simp_thms)
qed

text \<open>
  Fourteen records, twelve of them included (a data URI and an unfinished request are not):
  \<open>rawValue\<close> is 1004, while the ten results shown add up to 1000.
\<close>

theorem rawValue_sums_all_included_witness:
  "rawValue (fst (audit sample_collaborators mixed_records (Some 2) defaultOptions stale_locals))
     = 1004 \<and>
   sum_list (map totalBytes (results (extendedInfo
     (fst (audit sample_collaborators mixed_records (Some 2) defaultOptions stale_locals)))))
     = 1000"
proof -
  have "sum_list (map transferSize (filter passes_filter mixed_records)) = 1004"
    by (simp add: sample_defs)
  moreover have "sum_list (map totalBytes (results (extendedInfo
     (fst (audit sample_collaborators mixed_records (Some 2) defaultOptions stale_locals)))))
     = 1000"
    by (simp add: audit_results sample_defs Array_sort_def byBytesDescending_def)
  ultimately show ?thesis
    using rawValue_sums_all_included
      [of sample_collaborators mixed_records "Some 2" defaultOptions stale_locals]
    by simp
qed

text \<open>
  Claim C2. For every input, the list of results shown has \<open>min 10 totalCompletedRequests\<close>
  elements and is sorted by \<open>totalBytes\<close> in descending order; ties keep the order of
  encounter (for every size, the shown results of that size are an initial segment of the
  included results of that size, in their original order); the shown results are among the
  included ones and no result left out is larger than a shown one. In particular, when all
  included records have the same size, the shown results are the first ten in the order of
  encounter.
\<close>

theorem topResults_sorted_stable:
  fixes B :: "('thr, 'ms, 'score, 'details) collaborators"
  defines "everything \<equiv> \<lambda>thr recs. map (make_result B thr) (filter passes_filter recs)"
  defines "shown \<equiv> \<lambda>recs thr opts s. results (extendedInfo (fst (audit B recs thr opts s)))"
  shows
  "length (shown recs thr opts s) =
     min 10 (totalCompletedRequests (extendedInfo (fst (audit B recs thr opts s)))) \<and>
   sorted_wrt (\<lambda>a b. totalBytes b \<le> totalBytes a) (shown recs thr opts s) \<and>
   (\<forall>k. prefix (filter (\<lambda>r. totalBytes r = k) (shown recs thr opts s))
               (filter (\<lambda>r. totalBytes r = k) (everything thr recs))) \<and>
   mset (shown recs thr opts s) \<subseteq># mset (everything thr recs) \<and>
   (\<forall>a\<in>set (shown recs thr opts s).
      \<forall>b\<in>#(mset (everything thr recs) - mset (shown recs thr opts s)).
        totalBytes b \<le> totalBytes a) \<and>
   ((\<forall>r\<in>set (everything thr recs). totalBytes r = c) \<longrightarrow>
      shown recs thr opts s = take 10 (everything thr recs))"
proof -
  let ?all = "everything thr recs"
  let ?S = "Array_sort byBytesDescending ?all"
  have shown: "shown recs thr opts s = take 10 ?S"
    by (simp add: shown_def everything_def audit_results)
  have len: "length (shown recs thr opts s) =
      min 10 (totalCompletedRequests (extendedInfo (fst (audit B recs thr opts s))))"
    by (simp add: shown everything_def audit_completed length_Array_sort min.commute)
  have srt: "sorted_wrt (\<lambda>a b. totalBytes b \<le> totalBytes a) (shown recs thr opts s)"
    unfolding shown by (rule sorted_wrt_take) (rule sorted_desc_Array_sort)
  have stable: "prefix (filter (\<lambda>r. totalBytes r = k) (shown recs thr opts s))
               (filter (\<lambda>r. totalBytes r = k) ?all)" for k
    using prefix_filter_take [of "\<lambda>r. totalBytes r = k" 10 ?S]
    by (simp add: shown stable_Array_sort)
  have split: "mset ?all = mset (take 10 ?S) + mset (drop 10 ?S)"
    by (metis append_take_drop_id mset_Array_sort mset_append)
  have sub: "mset (shown recs thr opts s) \<subseteq># mset ?all"
    by (simp add: shown split)
  have rest: "mset ?all - mset (take 10 ?S) = mset (drop 10 ?S)"
    by (simp add: split)
  have largest: "\<forall>a\<in>set (shown recs thr opts s).
      \<forall>b\<in>#(mset ?all - mset (shown recs thr opts s)). totalBytes b \<le> totalBytes a"
    using top_largest [OF sorted_desc_Array_sort, of 10 ?all]
    by (simp add: shown rest)
  have equal: "(\<forall>r\<in>set ?all. totalBytes r = c) \<longrightarrow> shown recs thr opts s = take 10 ?all"
  proof
    assume "\<forall>r\<in>set ?all. totalBytes r = c"
    then have "?S = ?all" by (rule Array_sort_equal_sizes)
    then show "shown recs thr opts s = take 10 ?all" by (simp add: shown)
  qed
  from len srt stable sub largest equal show ?thesis by blast
qed

text \<open>Scenario 4: fifteen finished records of 1000 bytes each.\<close>

theorem topResults_sorted_stable_witness:
  "results (extendedInfo (fst (audit sample_collaborators fifteen_equal (Some 2)
      defaultOptions stale_locals))) =
     take 10 (map (make_result sample_collaborators (Some 2)) fifteen_equal) \<and>
   map result_url (results (extendedInfo (fst (audit sample_collaborators fifteen_equal (Some 2)
      defaultOptions stale_locals)))) =
     [''r01'', ''r02'', ''r03'', ''r04'', ''r05'', ''r06'', ''r07'', ''r08'', ''r09'', ''r10'']"
proof -
  have same: "\<forall>r\<in>set (map (make_result sample_collaborators (Some 2))
      (filter passes_filter fifteen_equal)). totalBytes r = 1000"
    by (simp add: sample_defs)
  have keep: "filter passes_filter fifteen_equal = fifteen_equal"
    by (simp add: sample_defs)
  from same topResults_sorted_stable
    [of sample_collaborators fifteen_equal "Some 2" defaultOptions stale_locals 1000]
  have "results (extendedInfo (fst (audit sample_collaborators fifteen_equal (Some 2)
      defaultOptions stale_locals))) =
     take 10 (map (make_result sample_collaborators (Some 2)) fifteen_equal)"
    by (simp only: keep simp_thms)
  then show ?thesis by (simp add: sample_defs)
qed

text \<open>
  Claim C3. For every input, \<open>totalCompletedRequests\<close> is the number of records that pass
  the filter (scheme not \<open>data\<close>, finished). It is counted before the truncation: the list
  of results shown has at most ten elements, whatever the count.
\<close>

theorem totalCompletedRequests_counts_included:
  "totalCompletedRequests (extendedInfo (fst (audit B recs thr opts s))) =
     length (filter passes_filter recs) \<and>
   length (results (extendedInfo (fst (audit B recs thr opts s)))) =
     min 10 (length (filter passes_filter recs))"
  by (simp add: audit_completed audit_results length_Array_sort min.commute)

text \<open>Fourteen records, twelve included, ten shown.\<close>

theorem totalCompletedRequests_counts_included_witness:
  "totalCompletedRequests (extendedInfo
     (fst (audit sample_collaborators mixed_records (Some 2) defaultOptions stale_locals))) = 12 \<and>
   length (results (extendedInfo
     (fst (audit sample_collaborators mixed_records (Some 2) defaultOptions stale_locals)))) = 10 \<and>
   length mixed_records = 14"
proof -
  have "length (filter passes_filter mixed_records) = 12"
    by (simp add: sample_defs)
  then show ?thesis
    using totalCompletedRequests_counts_included
      [of sample_collaborators mixed_records "Some 2" defaultOptions stale_locals]
    by (simp add: mixed_records_def ten_large_def)
qed

text \<open>
  Claim C4. The result built for a record is flagged if and only if the record is a script
  and its transfer size is strictly greater than 174080 bytes (170 * 1024); a record of any
  other resource type is never flagged, whatever its size. The results the loop builds are
  these results, one for each included record in the order of encounter, and every result
  in the output is one of them.
\<close>

theorem flagged_iff_oversized_script:
  "(hasExceededJSBundleSize record \<longleftrightarrow>
      resourceType record = Script \<and> 174080 < transferSize record) \<and>
   (flagged (make_result B thr record) \<longleftrightarrow>
      resourceType record = Script \<and> 174080 < transferSize record) \<and>
   (resourceType record \<noteq> Script \<longrightarrow> \<not> flagged (make_result B thr record)) \<and>
   results_var (Array_forEach (forEach_callback B thr) recs
       (s\<lparr>totalBytes_var := 0, results_var := []\<rparr>)) =
     map (make_result B thr) (filter passes_filter recs) \<and>
   set (results (extendedInfo (fst (audit B recs thr opts s)))) \<subseteq>
     make_result B thr ` {r \<in> set recs. passes_filter r}"
proof -
  have a: "hasExceededJSBundleSize record \<longleftrightarrow>
      resourceType record = Script \<and> 174080 < transferSize record"
    by (simp add: hasExceededJSBundleSize_def BUNDLE_SIZE_THRESHOLD_def)
  have b: "flagged (make_result B thr record) = hasExceededJSBundleSize record"
    by (simp add: make_result_def)
  have c: "results_var (Array_forEach (forEach_callback B thr) recs
       (s\<lparr>totalBytes_var := 0, results_var := []\<rparr>)) =
     map (make_result B thr) (filter passes_filter recs)"
    by (simp add: forEach_filter_results)
  have "set (take 10 (Array_sort byBytesDescending
          (map (make_result B thr) (filter passes_filter recs)))) \<subseteq>
        set (Array_sort byBytesDescending
          (map (make_result B thr) (filter passes_filter recs)))"
    by (rule set_take_subset)
  also have "\<dots> = set (map (make_result B thr) (filter passes_filter recs))"
    by (metis mset_Array_sort set_mset_mset)
  finally have d: "set (results (extendedInfo (fst (audit B recs thr opts s)))) \<subseteq>
     make_result B thr ` {r \<in> set recs. passes_filter r}"
    by (simp add: audit_results)
  from a b c d show ?thesis by simp
qed

text \<open>
  Scenario 1 (a script of 200000 bytes is flagged), the boundary (174081 is flagged, 174080
  is not) and an image of nine million bytes, which is not.
\<close>

theorem flagged_iff_oversized_script_witness:
  "flagged (make_result sample_collaborators (Some 2) (http_record ''a.js'' 200000 Script)) \<and>
   flagged (make_result sample_collaborators (Some 2) (http_record ''a.js'' 174081 Script)) \<and>
   \<not> flagged (make_result sample_collaborators (Some 2) (http_record ''a.js'' 174080 Script)) \<and>
   \<not> flagged (make_result sample_collaborators (Some 2)
        (http_record ''hero.png'' 9000000 Image))"
  using flagged_iff_oversized_script
      [of "http_record ''a.js'' 200000 Script" sample_collaborators "Some 2" "[]" stale_locals
        defaultOptions]
    flagged_iff_oversized_script
      [of "http_record ''a.js'' 174081 Script" sample_collaborators "Some 2" "[]" stale_locals
        defaultOptions]
    flagged_iff_oversized_script
      [of "http_record ''a.js'' 174080 Script" sample_collaborators "Some 2" "[]" stale_locals
        defaultOptions]
    flagged_iff_oversized_script
      [of "http_record ''hero.png'' 9000000 Image" sample_collaborators "Some 2" "[]" stale_locals
        defaultOptions]
  by (simp add: http_record_def)

text \<open>
  Claim C6. Two runs of the audit on the same records and options with different
  throughputs give the same \<open>score\<close> and the same \<open>rawValue\<close> (and the same
  \<open>displayValue\<close> and \<open>totalCompletedRequests\<close>); the results of one run are those of
  the other with \<open>totalMs\<close> recomputed, and nothing else changed.
\<close>

theorem throughput_only_affects_totalMs:
  "score (fst (audit B recs thr1 opts s)) = score (fst (audit B recs thr2 opts s)) \<and>
   rawValue (fst (audit B recs thr1 opts s)) = rawValue (fst (audit B recs thr2 opts s)) \<and>
   displayValue (fst (audit B recs thr1 opts s)) =
     displayValue (fst (audit B recs thr2 opts s)) \<and>
   totalCompletedRequests (extendedInfo (fst (audit B recs thr1 opts s))) =
     totalCompletedRequests (extendedInfo (fst (audit B recs thr2 opts s))) \<and>
   results (extendedInfo (fst (audit B recs thr2 opts s))) =
     map (\<lambda>r. r\<lparr>totalMs := bytesToMs B (totalBytes r) thr2\<rparr>)
       (results (extendedInfo (fst (audit B recs thr1 opts s))))"
  using results_other_throughput [of B recs thr2 opts s thr1]
  by (simp add: audit_score audit_rawValue audit_displayValue audit_completed)

text \<open>A throughput of 2 bytes per millisecond and an unavailable throughput.\<close>

theorem throughput_only_affects_totalMs_witness:
  "score (fst (audit sample_collaborators mixed_records (Some 2) defaultOptions stale_locals)) =
     (1004, 2560000, 4096000) \<and>
   score (fst (audit sample_collaborators mixed_records None defaultOptions stale_locals)) =
     (1004, 2560000, 4096000) \<and>
   rawValue (fst (audit sample_collaborators mixed_records None defaultOptions stale_locals)) =
     1004"
proof -
  have "sum_list (map transferSize (filter passes_filter mixed_records)) = 1004"
    by (simp add: sample_defs)
  then have "score (fst (audit sample_collaborators mixed_records (Some 2) defaultOptions
      stale_locals)) = (1004, 2560000, 4096000) \<and>
    rawValue (fst (audit sample_collaborators mixed_records (Some 2) defaultOptions
      stale_locals)) = 1004"
    by (simp add: audit_score audit_rawValue sample_collaborators_def defaultOptions_def)
  then show ?thesis
    using throughput_only_affects_totalMs
      [of sample_collaborators mixed_records "Some 2" defaultOptions stale_locals None]
    by simp
qed

text \<open>
  Claim C7. With \<^verbatim>\<open>bytesToMs\<close> as the specification describes it, a throughput that is
  zero or unavailable raises no error: \<open>totalMs\<close> is the placeholder 0 for every included
  record, that is for every result the loop builds, and so for every result in the output.
\<close>

theorem totalMs_zero_without_throughput:
  assumes "bytesToMs B = spec_bytesToMs" and "thr = None \<or> thr = Some 0"
  shows
  "list_all (\<lambda>r. totalMs r = 0)
     (results_var (Array_forEach (forEach_callback B thr) recs
        (s\<lparr>totalBytes_var := 0, results_var := []\<rparr>))) \<and>
   list_all (\<lambda>r. totalMs r = 0) (results (extendedInfo (fst (audit B recs thr opts s))))"
proof -
  let ?all = "map (make_result B thr) (filter passes_filter recs)"
  have zero: "totalMs (make_result B thr r) = 0" for r
    using assms by (auto simp add: make_result_def spec_bytesToMs_def)
  then have all: "list_all (\<lambda>r. totalMs r = 0) ?all"
    by (simp add: list_all_iff)
  have "set (take 10 (Array_sort byBytesDescending ?all)) \<subseteq> set (Array_sort byBytesDescending ?all)"
    by (rule set_take_subset)
  also have "\<dots> = set ?all"
    by (metis mset_Array_sort set_mset_mset)
  finally have "list_all (\<lambda>r. totalMs r = 0) (take 10 (Array_sort byBytesDescending ?all))"
    using all unfolding list_all_iff by blast
  with all show ?thesis
    by (simp add: forEach_filter_results audit_results)
qed

text \<open>
  Fifteen records of 1000 bytes: 0 milliseconds each at throughput zero and at no throughput,
  500 milliseconds each at 2 bytes per millisecond.
\<close>

theorem totalMs_zero_without_throughput_witness:
  "list_all (\<lambda>r. totalMs r = 0) (results (extendedInfo
     (fst (audit sample_collaborators fifteen_equal (Some 0) defaultOptions stale_locals)))) \<and>
   list_all (\<lambda>r. totalMs r = 0) (results (extendedInfo
     (fst (audit sample_collaborators fifteen_equal None defaultOptions stale_locals)))) \<and>
   length (results (extendedInfo
     (fst (audit sample_collaborators fifteen_equal None defaultOptions stale_locals)))) = 10 \<and>
   map totalMs (results (extendedInfo
     (fst (audit sample_collaborators fifteen_equal (Some 2) defaultOptions stale_locals)))) =
     [500, 500, 500, 500, 500, 500, 500, 500, 500, 500]"
proof -
  have B: "bytesToMs sample_collaborators = spec_bytesToMs"
    by (simp add: sample_collaborators_def)
  have len: "length (results (extendedInfo
     (fst (audit sample_collaborators fifteen_equal None defaultOptions stale_locals)))) = 10"
    by (simp add: audit_results length_Array_sort sample_defs)
  have paid: "map totalMs (results (extendedInfo
     (fst (audit sample_collaborators fifteen_equal (Some 2) defaultOptions stale_locals)))) =
     [500, 500, 500, 500, 500, 500, 500, 500, 500, 500]"
    by (simp add: audit_results sample_defs Array_sort_def byBytesDescending_def)
  show ?thesis
    using totalMs_zero_without_throughput
        [of sample_collaborators "Some 0" fifteen_equal stale_locals defaultOptions, OF B]
      totalMs_zero_without_throughput
        [of sample_collaborators None fifteen_equal stale_locals defaultOptions, OF B]
    by (simp only: len paid simp_thms)
qed

text \<open>
  Claim C8. The audit is a function of its inputs and keeps no state between invocations:
  its result does not depend on the values its local variables hold on entry, so a second
  run on the same records, throughput and options, started from what the first run left
  behind, returns the same result: the same results and the same \<open>rawValue\<close>.
\<close>

theorem audit_keeps_no_state:
  "fst (audit B recs thr opts s) = fst (audit B recs thr opts s') \<and>
   fst (audit B recs thr opts (snd (audit B recs thr opts s))) =
     fst (audit B recs thr opts s) \<and>
   results (extendedInfo (fst (audit B recs thr opts (snd (audit B recs thr opts s))))) =
     results (extendedInfo (fst (audit B recs thr opts s))) \<and>
   rawValue (fst (audit B recs thr opts (snd (audit B recs thr opts s)))) =
     rawValue (fst (audit B recs thr opts s))"
  using audit_fresh_locals [of B recs thr opts s s']
    audit_fresh_locals [of B recs thr opts "snd (audit B recs thr opts s)" s]
  by simp

text \<open>
  The first run starts with 7 in \<open>totalBytes\<close> and leaves 1004 there; the second run
  returns 1004 again, not 2008.
\<close>

theorem audit_keeps_no_state_witness:
  "rawValue (fst (audit sample_collaborators mixed_records (Some 2) defaultOptions
     (snd (audit sample_collaborators mixed_records (Some 2) defaultOptions stale_locals)))) =
     1004 \<and>
   totalBytes_var
     (snd (audit sample_collaborators mixed_records (Some 2) defaultOptions stale_locals)) = 1004 \<and>
   totalBytes_var stale_locals = 7"
proof -
  have "sum_list (map transferSize (filter passes_filter mixed_records)) = 1004"
    by (simp add: sample_defs)
  then have "rawValue (fst (audit sample_collaborators mixed_records (Some 2) defaultOptions
      stale_locals)) = 1004"
    by (simp add: audit_rawValue)
  then show ?thesis
    using audit_keeps_no_state [of sample_collaborators mixed_records "Some 2" defaultOptions
      stale_locals stale_locals]
    by (simp add: audit_locals stale_locals_def)
qed

text \<open>
  Claim C9. The default options are \<open>scorePODR = 2560000\<close> and \<open>scoreMedian = 4096000\<close>,
  and the score is computed from the two options found in the context, whatever they are:
  with the defaults it uses these two values, with other options it uses theirs.
\<close>

theorem options_defaults_and_override:
  "scorePODR defaultOptions = 2560000 \<and> scoreMedian defaultOptions = 4096000 \<and>
   score (fst (audit B recs thr opts s)) =
     computeLogNormalScore B (rawValue (fst (audit B recs thr opts s)))
       (scorePODR opts) (scoreMedian opts) \<and>
   score (fst (audit B recs thr defaultOptions s)) =
     computeLogNormalScore B (rawValue (fst (audit B recs thr defaultOptions s)))
       2560000 4096000"
  by (simp add: defaultOptions_def audit_score audit_rawValue)

text \<open>Options 1000 and 3000 in place of the defaults.\<close>

theorem options_defaults_and_override_witness:
  "score (fst (audit sample_collaborators mixed_records (Some 2)
     \<lparr>scorePODR = 1000, scoreMedian = 3000\<rparr> stale_locals)) = (1004, 1000, 3000) \<and>
   score (fst (audit sample_collaborators mixed_records (Some 2) defaultOptions stale_locals)) =
     (1004, 2560000, 4096000)"
proof -
  have "sum_list (map transferSize (filter passes_filter mixed_records)) = 1004"
    by (simp add: sample_defs)
  then have "rawValue (fst (audit sample_collaborators mixed_records (Some 2) opts
      stale_locals)) = 1004" for opts
    by (simp add: audit_rawValue)
  then show ?thesis
    using options_defaults_and_override [of sample_collaborators mixed_records "Some 2"
        "\<lparr>scorePODR = 1000, scoreMedian = 3000\<rparr>" stale_locals]
      options_defaults_and_override [of sample_collaborators mixed_records "Some 2"
        defaultOptions stale_locals]
    by (simp add: sample_collaborators_def)
qed

text \<open>
  Claim C10. \<open>extendedInfo.value.results\<close> is the list sorted and cut to ten, the very
  list the table is made of, never the full list: it has at most ten elements, and when more
  than ten records pass the filter it has exactly ten, fewer than there are included records.
  What is left out survives only in \<open>rawValue\<close> and \<open>totalCompletedRequests\<close>: two
  inputs that agree on \<open>rawValue\<close>, on \<open>totalCompletedRequests\<close> and on the ten results
  give the same output altogether.
\<close>

theorem extendedInfo_exposes_only_top_ten:
  "results (extendedInfo (fst (audit B recs thr opts s))) =
     take 10 (Array_sort byBytesDescending
       (map (make_result B thr) (filter passes_filter recs))) \<and>
   details (fst (audit B recs thr opts s)) =
     makeTableDetails B headings (results (extendedInfo (fst (audit B recs thr opts s)))) \<and>
   length (results (extendedInfo (fst (audit B recs thr opts s)))) \<le> 10 \<and>
   (10 < totalCompletedRequests (extendedInfo (fst (audit B recs thr opts s))) \<longrightarrow>
      length (results (extendedInfo (fst (audit B recs thr opts s)))) = 10 \<and>
      length (results (extendedInfo (fst (audit B recs thr opts s)))) <
        length (map (make_result B thr) (filter passes_filter recs))) \<and>
   (rawValue (fst (audit B recs' thr opts s)) = rawValue (fst (audit B recs thr opts s)) \<and>
    totalCompletedRequests (extendedInfo (fst (audit B recs' thr opts s))) =
      totalCompletedRequests (extendedInfo (fst (audit B recs thr opts s))) \<and>
    results (extendedInfo (fst (audit B recs' thr opts s))) =
      results (extendedInfo (fst (audit B recs thr opts s))) \<longrightarrow>
    fst (audit B recs' thr opts s) = fst (audit B recs thr opts s))"
proof -
  have len: "length (results (extendedInfo (fst (audit B recs thr opts s)))) =
      min 10 (length (filter passes_filter recs))"
    by (simp add: audit_results length_Array_sort min.commute)
  have same: "fst (audit B recs' thr opts s) = fst (audit B recs thr opts s)"
    if "rawValue (fst (audit B recs' thr opts s)) = rawValue (fst (audit B recs thr opts s))"
      and "totalCompletedRequests (extendedInfo (fst (audit B recs' thr opts s))) =
        totalCompletedRequests (extendedInfo (fst (audit B recs thr opts s)))"
      and "results (extendedInfo (fst (audit B recs' thr opts s))) =
        results (extendedInfo (fst (audit B recs thr opts s)))"
    using audit_assembled [of B recs' thr opts s] audit_assembled [of B recs thr opts s]
    by (simp only: that)
  have big: "10 < totalCompletedRequests (extendedInfo (fst (audit B recs thr opts s))) \<longrightarrow>
      length (results (extendedInfo (fst (audit B recs thr opts s)))) = 10 \<and>
      length (results (extendedInfo (fst (audit B recs thr opts s)))) <
        length (map (make_result B thr) (filter passes_filter recs))"
    by (simp add: len audit_completed)
  have short: "length (results (extendedInfo (fst (audit B recs thr opts s)))) \<le> 10"
    by (simp add: len)
  from audit_results [of B recs thr opts s] audit_details [of B recs thr opts s] short big same
  show ?thesis by blast
qed

text \<open>
  Two lists of twelve included records with the same ten largest, the same total and
  different remainders: the outputs are equal.
\<close>

theorem extendedInfo_exposes_only_top_ten_witness:
  "fst (audit sample_collaborators other_records (Some 2) defaultOptions stale_locals) =
     fst (audit sample_collaborators mixed_records (Some 2) defaultOptions stale_locals) \<and>
   map result_url (results (extendedInfo
     (fst (audit sample_collaborators mixed_records (Some 2) defaultOptions stale_locals)))) =
     [''t01'', ''t02'', ''t03'', ''t04'', ''t05'', ''t06'', ''t07'', ''t08'', ''t09'', ''t10''] \<and>
   totalCompletedRequests (extendedInfo
     (fst (audit sample_collaborators mixed_records (Some 2) defaultOptions stale_locals))) = 12 \<and>
   map url (filter passes_filter mixed_records) \<noteq> map url (filter passes_filter other_records)"
proof -
  have r: "rawValue (fst (audit sample_collaborators other_records (Some 2) defaultOptions
        stale_locals)) =
      rawValue (fst (audit sample_collaborators mixed_records (Some 2) defaultOptions stale_locals))"
    by (simp add: audit_rawValue sample_defs other_records_def)
  have n: "totalCompletedRequests (extendedInfo
        (fst (audit sample_collaborators other_records (Some 2) defaultOptions stale_locals))) =
      totalCompletedRequests (extendedInfo
        (fst (audit sample_collaborators mixed_records (Some 2) defaultOptions stale_locals)))"
    by (simp add: audit_completed sample_defs other_records_def)
  have t: "results (extendedInfo
        (fst (audit sample_collaborators other_records (Some 2) defaultOptions stale_locals))) =
      results (extendedInfo
        (fst (audit sample_collaborators mixed_records (Some 2) defaultOptions stale_locals)))"
    by (simp add: audit_results sample_defs other_records_def Array_sort_def
        byBytesDescending_def)
  have u: "map result_url (results (extendedInfo
     (fst (audit sample_collaborators mixed_records (Some 2) defaultOptions stale_locals)))) =
     [''t01'', ''t02'', ''t03'', ''t04'', ''t05'', ''t06'', ''t07'', ''t08'', ''t09'', ''t10'']"
    by (simp add: audit_results sample_defs Array_sort_def byBytesDescending_def)
  have c: "totalCompletedRequests (extendedInfo
     (fst (audit sample_collaborators mixed_records (Some 2) defaultOptions stale_locals))) = 12"
    by (simp add: audit_completed sample_defs)
  have d: "map url (filter passes_filter mixed_records) \<noteq>
      map url (filter passes_filter other_records)"
    by (simp add: sample_defs other_records_def)
  from r n t u c d show ?thesis
    using extendedInfo_exposes_only_top_ten
      [of sample_collaborators mixed_records "Some 2" defaultOptions stale_locals other_records]
    by (simp only: simp_thms)
qed

end
